theory Spec2Isabelle
  imports Complex_Main "HOL-Library.Multiset"
begin

section \<open>NeptuneCallback: a shallow embedding of callbacks/neptune_callback.py\<close>

text \<open>
  The callback is a class with mutable fields whose methods talk to three outside
  parties: the file system (the log directory), the training library (policy
  evaluation, video recording, model serialisation) and the remote tracking service.
  The embedding keeps the fields in a record, passes what the outside parties answer
  as an explicit argument, and returns what the callback asks of them as a list of
  effects in the order of the calls.

  Python floats are idealised as real numbers: infinities other than the initial best
  reward and NaN are outside the model, and so is rounding, except where the order of a
  summation is in question: there numpy's mean and standard deviation are taken in
  binary64 arithmetic.
\<close>

subsection \<open>Errors and outcomes\<close>

datatype error =
    ZeroDivisionError
  | KeyError string
  | ValueError
  | TypeError
  | FileNotFoundError
  | ExternalError string

text \<open>A method call either returns a value or raises.\<close>

datatype 'a outcome = Returned 'a | Raised error

subsection \<open>Python and numpy primitives used by the callback\<close>

text \<open>\<open>xs[-k:]\<close> for \<open>k \<ge> 0\<close>: since \<open>-0\<close> is \<open>0\<close>, \<open>xs[-0:]\<close> is the whole list.\<close>

definition py_slice_last :: "nat \<Rightarrow> 'a list \<Rightarrow> 'a list" where
  "py_slice_last k xs = (if k = 0 then xs else drop (length xs - k) xs)"

text \<open>\<open>os.path.join(a, b)\<close> of posixpath, for two components.\<close>

definition path_join :: "string \<Rightarrow> string \<Rightarrow> string" where
  "path_join a b =
     (if b \<noteq> [] \<and> hd b = CHR ''/'' then b
      else if a = [] \<or> last a = CHR ''/'' then a @ b
      else a @ ''/'' @ b)"

text \<open>\<open>functools.reduce(f, xs)\<close> without an initial value raises TypeError on an empty list.\<close>

definition py_reduce :: "('a \<Rightarrow> 'a \<Rightarrow> 'a) \<Rightarrow> 'a list \<Rightarrow> error + 'a" where
  "py_reduce f xs = (case xs of [] \<Rightarrow> Inl TypeError | x # rest \<Rightarrow> Inr (foldl f x rest))"

text \<open>\<open>str(n)\<close> for an int: decimal digits, with a minus sign for negative numbers.\<close>

definition digit_char :: "nat \<Rightarrow> char" where
  "digit_char d = char_of (48 + d)"

fun str_nat :: "nat \<Rightarrow> string" where
  "str_nat n = (if n < 10 then [digit_char n] else str_nat (n div 10) @ [digit_char (n mod 10)])"

definition str_int :: "int \<Rightarrow> string" where
  "str_int i = (if i < 0 then CHR ''-'' # str_nat (nat (- i)) else str_nat (nat i))"

text \<open>\<open>a % b\<close> on ints: the remainder takes the sign of the divisor, as \<open>mod\<close> on
  \<open>int\<close> does; a zero divisor raises.\<close>

definition py_mod :: "int \<Rightarrow> int \<Rightarrow> error + int" where
  "py_mod a b = (if b = 0 then Inl ZeroDivisionError else Inr (a mod b))"

text \<open>\<open>np.mean\<close> and \<open>np.std\<close> (population standard deviation, divisor N) of a
  one-dimensional array.\<close>

definition np_mean :: "real list \<Rightarrow> real" where
  "np_mean xs = sum_list xs / real (length xs)"

definition np_std :: "real list \<Rightarrow> real" where
  "np_std xs = sqrt (np_mean (map (\<lambda>x. \<bar>x - np_mean xs\<bar> ^ 2) xs))"

text \<open>
  The same two functions in binary64 arithmetic. \<open>round_f64\<close> rounds a real number
  to the nearest number with a 53-bit significand, ties to the even significand
  (overflow and subnormal numbers are left out). numpy adds an array of fewer than
  eight elements from left to right, rounding after each addition, and the definitions
  are meant for such arrays; the mean divides the sum by the count; the standard
  deviation squares the rounded deviations from the mean, takes their mean in the same
  way and then the square root.
\<close>

definition round_to_even :: "real \<Rightarrow> int" where
  "round_to_even x =
     (let n = \<lfloor>x\<rfloor>; r = x - of_int n
      in if r < 1 / 2 then n else if 1 / 2 < r then n + 1 else if even n then n else n + 1)"

definition binade :: "real \<Rightarrow> int" where
  "binade x = \<lfloor>log 2 \<bar>x\<bar>\<rfloor>"

definition round_f64 :: "real \<Rightarrow> real" where
  "round_f64 x =
     (if x = 0 then 0
      else of_int (round_to_even (x / 2 powi (binade x - 52))) * 2 powi (binade x - 52))"

definition f64_sum :: "real list \<Rightarrow> real" where
  "f64_sum xs = foldl (\<lambda>acc x. round_f64 (acc + x)) 0 xs"

definition np_mean_f64 :: "real list \<Rightarrow> real" where
  "np_mean_f64 xs = round_f64 (f64_sum xs / real (length xs))"

definition np_std_f64 :: "real list \<Rightarrow> real" where
  "np_std_f64 xs =
     round_f64 (sqrt (np_mean_f64
       (map (\<lambda>x. round_f64 (round_f64 (x - np_mean_f64 xs) * round_f64 (x - np_mean_f64 xs))) xs)))"

subsection \<open>The log directory\<close>

text \<open>
  A cell of a row that \<open>csv.DictReader\<close> yields, classified by what \<open>float\<close> does
  with it: text of a number, text that \<open>float\<close> rejects (ValueError), or the
  \<open>None\<close> that DictReader fills in for a short row (TypeError).
\<close>

datatype cell = Number real | NotNumber | Missing

type_synonym row = "string \<rightharpoonup> cell"

text \<open>\<open>float(row[key])\<close>: a missing column raises KeyError.\<close>

definition float_of :: "row \<Rightarrow> string \<Rightarrow> error + real" where
  "float_of row key =
     (case row key of
        None \<Rightarrow> Inl (KeyError key)
      | Some (Number x) \<Rightarrow> Inr x
      | Some NotNumber \<Rightarrow> Inl ValueError
      | Some Missing \<Rightarrow> Inl TypeError)"

text \<open>An entry of \<open>os.listdir(log_dir)\<close>: its name, what \<open>os.path.isfile\<close> says of
  it, and the rows \<open>list(csv.DictReader(f))\<close> reads from it (the header line is
  consumed by the reader and is not a row).\<close>

record dir_entry =
  entry_name :: string
  entry_is_file :: bool
  entry_rows :: "row list"

subsection \<open>The callback object and the outside world\<close>

text \<open>\<open>best_mean_reward\<close> starts at \<open>-np.inf\<close> and later holds evaluation means.\<close>

datatype best = MinusInf | Finite real

fun exceeds :: "real \<Rightarrow> best \<Rightarrow> bool" where
  "exceeds x MinusInf = True"
| "exceeds x (Finite b) = (x > b)"

record callback =
  model_class :: string
  logs_freq :: int
  evaluate_freq :: int
  log_dir :: string
  best_mean_reward :: best
  video_length :: int
  make_video :: bool
  neptune_account_name :: string
  project_name :: string
  experiment_name :: string
  neptune_logger :: "string option"
  model_parameter :: "(string \<times> string) list"
  comment :: "string option"
  random_seed :: "int option"
  environment_name :: string
  n_calls :: int

text \<open>What the callback asks of the tracking service, the file system and the model.\<close>

datatype effect =
    CreateExperiment string
  | AppendTags "string list"
  | LogText string string
  | LogMetric string real
  | Mkdir string
  | RecordVideo string int
  | LogVideo string
  | RemoveFile string
  | SaveModel string

text \<open>
  What the outside answers during one call: the directory listing, whether the log
  directory exists, what \<open>evaluate_policy\<close> returns (per-episode rewards and
  lengths) or raises, whether recording the video raises, and, for each call that
  \<open>_init_callback\<close> makes to the tracking service or the file system, whether it
  raises: opening the session, creating the experiment, appending the tags, uploading
  the hyperparameter text, uploading the log-directory text, uploading the comment,
  creating the log directory (\<open>os.mkdir\<close> raises FileNotFoundError when the parent
  directory is missing).
\<close>

record world =
  listing :: "dir_entry list"
  log_dir_exists :: bool
  evaluate_policy :: "error + (real list \<times> real list)"
  video_fault :: "error option"
  session_fault :: "error option"
  create_experiment_fault :: "error option"
  append_tags_fault :: "error option"
  params_upload_fault :: "error option"
  path_text_fault :: "error option"
  comment_fault :: "error option"
  mkdir_fault :: "error option"

subsection \<open>\<open>__init__\<close>\<close>

definition init ::
  "string \<Rightarrow> string \<Rightarrow> string \<Rightarrow> string \<Rightarrow> string \<Rightarrow> string \<Rightarrow> int option \<Rightarrow>
   (string \<times> string) list option \<Rightarrow> string option \<Rightarrow> int \<Rightarrow> int \<Rightarrow> int \<Rightarrow> bool \<Rightarrow> callback" where
  "init model environment_name' neptune_account_name' project_name' experiment_name' log_dir'
        random_seed' model_parameter' comment' logs_freq' evaluate_freq' video_length' make_video' =
     \<lparr> model_class = model,
       logs_freq = logs_freq',
       evaluate_freq = evaluate_freq',
       log_dir = log_dir',
       best_mean_reward = MinusInf,
       video_length = video_length',
       make_video = make_video',
       neptune_account_name = neptune_account_name',
       project_name = project_name',
       experiment_name = experiment_name',
       neptune_logger = None,
       model_parameter = (case model_parameter' of None \<Rightarrow> [] | Some d \<Rightarrow> d),
       comment = comment',
       random_seed = random_seed',
       environment_name = environment_name',
       n_calls = 0 \<rparr>"

subsection \<open>\<open>_load_logs\<close>\<close>

type_synonym stats = "real \<times> real \<times> real \<times> real"

text \<open>The inner loop over the rows kept from one file: both lists grow by one value
  per row; the first cell that \<open>float\<close> rejects raises.\<close>

fun append_rows :: "row list \<Rightarrow> real list \<times> real list \<Rightarrow> error + (real list \<times> real list)" where
  "append_rows [] acc = Inr acc"
| "append_rows (row # rows) (last_rewards, last_ep_lengths) =
     (case float_of row ''r'' of
        Inl e \<Rightarrow> Inl e
      | Inr r \<Rightarrow>
          (case float_of row ''l'' of
             Inl e \<Rightarrow> Inl e
           | Inr l \<Rightarrow> append_rows rows (last_rewards @ [r], last_ep_lengths @ [l])))"

text \<open>The outer loop over the directory listing.\<close>

fun load_loop ::
  "string \<Rightarrow> dir_entry list \<Rightarrow> real list \<times> real list \<Rightarrow> error + (real list \<times> real list)" where
  "load_loop d [] acc = Inr acc"
| "load_loop d (e # es) acc =
     (let file_or_dir = path_join d (entry_name e) in
      if entry_is_file e \<and> py_slice_last (length ''.csv'') file_or_dir = ''.csv'' then
        (let rows = drop 1 (entry_rows e) in
         if length rows = 0 then load_loop d es acc
         else
           (let lasts = min 4 (length rows);
                rows = py_slice_last lasts rows
            in case append_rows rows acc of
                 Inl err \<Rightarrow> Inl err
               | Inr acc' \<Rightarrow> load_loop d es acc'))
      else load_loop d es acc)"

text \<open>\<open>_load_logs\<close>: \<open>None\<close> is the bare \<open>return\<close> of the source.\<close>

definition load_logs :: "world \<Rightarrow> callback \<Rightarrow> error + stats option" where
  "load_logs w self =
     (case load_loop (log_dir self) (listing w) ([], []) of
        Inl err \<Rightarrow> Inl err
      | Inr (last_rewards, last_ep_lengths) \<Rightarrow>
          if length last_rewards = 0 then Inr None
          else Inr (Some (np_mean last_rewards, np_std last_rewards,
                          np_mean last_ep_lengths, np_std last_ep_lengths)))"

text \<open>\<open>_load_logs\<close> with numpy's two functions as parameters, so that the arithmetic
  in which they are computed is left open.\<close>

definition load_logs_with ::
  "(real list \<Rightarrow> real) \<Rightarrow> (real list \<Rightarrow> real) \<Rightarrow> world \<Rightarrow> callback \<Rightarrow> error + stats option" where
  "load_logs_with mean std w self =
     (case load_loop (log_dir self) (listing w) ([], []) of
        Inl err \<Rightarrow> Inl err
      | Inr (last_rewards, last_ep_lengths) \<Rightarrow>
          if length last_rewards = 0 then Inr None
          else Inr (Some (mean last_rewards, std last_rewards,
                          mean last_ep_lengths, std last_ep_lengths)))"

subsection \<open>\<open>_init_callback\<close>\<close>

text \<open>The text built for the hyperparameters: \<open>reduce\<close> over the formatted items of
  the dictionary, in insertion order. The values are held as the text that formatting
  them gives.\<close>

definition model_params_text :: "callback \<Rightarrow> error + string" where
  "model_params_text self =
     py_reduce (\<lambda>x y. x @ y @ [CHR 0x0A])
       (map (\<lambda>(key, val). key @ '': '' @ val) (model_parameter self))"

text \<open>The \<open>try\<close> block with its bare \<open>except: pass\<close>: whatever is raised while the
  text is built or uploaded is dropped, and then nothing was uploaded.\<close>

definition try_log_model_params :: "world \<Rightarrow> callback \<Rightarrow> effect list" where
  "try_log_model_params w self =
     (case model_params_text self of
        Inl e \<Rightarrow> []
      | Inr text \<Rightarrow>
          (case params_upload_fault w of
             Some e \<Rightarrow> []
           | None \<Rightarrow> [LogText ''Model Params'' text]))"

text \<open>A call to the outside that may raise: when it raises, the method is left there
  and nothing after it happens; otherwise its effect is recorded and the rest follows.\<close>

definition outside_call ::
  "error option \<Rightarrow> effect \<Rightarrow> unit outcome \<times> effect list \<Rightarrow> unit outcome \<times> effect list" where
  "outside_call fault eff rest =
     (case fault of
        Some e \<Rightarrow> (Raised e, [])
      | None \<Rightarrow> (fst rest, eff # snd rest))"

text \<open>The statements after the \<open>try\<close> block: the log-directory text, the comment when
  there is one, and \<open>os.mkdir\<close> when the log directory does not exist.\<close>

definition finish_init :: "world \<Rightarrow> callback \<Rightarrow> unit outcome \<times> effect list" where
  "finish_init w self =
     outside_call (path_text_fault w) (LogText ''Path to local files'' (log_dir self))
       (let make_dir =
              (if \<not> log_dir_exists w
               then outside_call (mkdir_fault w) (Mkdir (log_dir self)) (Returned (), [])
               else (Returned (), []))
        in case comment self of
             None \<Rightarrow> make_dir
           | Some c \<Rightarrow> outside_call (comment_fault w) (LogText ''Comment'' c) make_dir)"

definition init_callback :: "world \<Rightarrow> callback \<Rightarrow> unit outcome \<times> effect list \<times> callback" where
  "init_callback w self =
     (case session_fault w of
        Some e \<Rightarrow> (Raised e, [], self)
      | None \<Rightarrow>
          (let self' = self\<lparr>neptune_logger :=
                               Some (neptune_account_name self @ ''/'' @ project_name self)\<rparr>;
               after_try = finish_init w self';
               run =
                 outside_call (create_experiment_fault w) (CreateExperiment (experiment_name self'))
                   (outside_call (append_tags_fault w)
                      (AppendTags
                         (case random_seed self' of
                            None \<Rightarrow> [model_class self', environment_name self']
                          | Some seed \<Rightarrow>
                              [model_class self', environment_name self',
                               ''seed: '' @ str_int seed]))
                      (fst after_try, try_log_model_params w self' @ snd after_try))
           in (fst run, snd run, self')))"

subsection \<open>\<open>_make_video\<close> and \<open>_evaluate\<close>\<close>

text \<open>Recording runs the policy in the environment and may raise; after it the video
  is uploaded and both local files are removed.\<close>

definition make_video_method :: "world \<Rightarrow> callback \<Rightarrow> error option \<times> effect list" where
  "make_video_method w self =
     (case video_fault w of
        Some e \<Rightarrow> (Some e, [])
      | None \<Rightarrow>
          (let video_name = experiment_name self @ ''-step-'' @ str_int (n_calls self);
               path_to_video = path_join (log_dir self)
                 (video_name @ ''-step-0-to-step-'' @ str_int (video_length self) @ ''.mp4'');
               path_to_json = path_join (log_dir self)
                 (video_name @ ''-step-0-to-step-'' @ str_int (video_length self) @ ''.meta.json'')
           in (None,
               [RecordVideo video_name (video_length self),
                LogVideo path_to_video,
                RemoveFile path_to_video,
                RemoveFile path_to_json])))"

definition evaluate :: "world \<Rightarrow> callback \<Rightarrow> error + stats" where
  "evaluate w self =
     (case evaluate_policy w of
        Inl e \<Rightarrow> Inl e
      | Inr (episode_rewards, episode_lengths) \<Rightarrow>
          Inr (np_mean episode_rewards, np_std episode_rewards,
               np_mean episode_lengths, np_std episode_lengths))"

subsection \<open>\<open>_on_step\<close>\<close>

text \<open>The first \<open>if\<close> of \<open>_on_step\<close>. \<open>Some\<close> outcome: the method is left here
  (the \<open>return True\<close> when there are no logs, or an exception); \<open>None\<close>: control
  reaches the second \<open>if\<close>.\<close>

definition log_trigger :: "world \<Rightarrow> callback \<Rightarrow> bool outcome option \<times> effect list" where
  "log_trigger w self =
     (case py_mod (n_calls self) (logs_freq self) of
        Inl e \<Rightarrow> (Some (Raised e), [])
      | Inr m \<Rightarrow>
          if m = 0 then
            (case load_logs w self of
               Inl e \<Rightarrow> (Some (Raised e), [])
             | Inr None \<Rightarrow> (Some (Returned True), [])
             | Inr (Some (mean_reward, std_reward, mean_length, std_length)) \<Rightarrow>
                 (None,
                  [LogMetric ''mean reward from training'' mean_reward,
                   LogMetric ''std reward from training'' std_reward,
                   LogMetric ''mean length from training'' mean_length,
                   LogMetric ''std length from training'' std_length]))
          else (None, []))"

text \<open>The second \<open>if\<close> of \<open>_on_step\<close>. \<open>Some e\<close>: an exception leaves the method.\<close>

definition evaluate_trigger :: "world \<Rightarrow> callback \<Rightarrow> error option \<times> effect list \<times> callback" where
  "evaluate_trigger w self =
     (case py_mod (n_calls self) (evaluate_freq self) of
        Inl e \<Rightarrow> (Some e, [], self)
      | Inr m \<Rightarrow>
          if m = 0 then
            (case evaluate w self of
               Inl e \<Rightarrow> (Some e, [], self)
             | Inr (mean_reward, std_reward, mean_ep_length, std_ep_length) \<Rightarrow>
                 (case (if make_video self then make_video_method w self else (None, [])) of
                    (Some e, video) \<Rightarrow> (Some e, video, self)
                  | (None, video) \<Rightarrow>
                      (let metrics =
                         [LogMetric ''mean reward from evaluate'' mean_reward,
                          LogMetric ''std_reward from evaluate'' std_reward,
                          LogMetric ''mean episode length from evaluate'' mean_ep_length,
                          LogMetric ''std episode length from evaluate'' std_ep_length]
                       in if exceeds mean_reward (best_mean_reward self) then
                            (None,
                             video @ metrics
                               @ [SaveModel (path_join (log_dir self) ''best_model.plk'')],
                             self\<lparr>best_mean_reward := Finite mean_reward\<rparr>)
                          else (None, video @ metrics, self))))
          else (None, [], self))"

text \<open>\<open>_on_step\<close>: the outcome, the effects of this call in order, and the callback
  after the call.\<close>

definition on_step :: "world \<Rightarrow> callback \<Rightarrow> bool outcome \<times> effect list \<times> callback" where
  "on_step w self =
     (case log_trigger w self of
        (Some out, logged) \<Rightarrow> (out, logged, self)
      | (None, logged) \<Rightarrow>
          (case evaluate_trigger w self of
             (Some e, evaluated, self') \<Rightarrow> (Raised e, logged @ evaluated, self')
           | (None, evaluated, self') \<Rightarrow> (Returned True, logged @ evaluated, self')))"

section \<open>The specification's vocabulary\<close>

text \<open>The entries that \<open>_load_logs\<close> reads: regular files whose joined path ends in
  \<open>.csv\<close> (the condition of the source's \<open>if\<close>).\<close>

definition is_log_file :: "string \<Rightarrow> dir_entry \<Rightarrow> bool" where
  "is_log_file d e =
     (entry_is_file e \<and> py_slice_last (length ''.csv'') (path_join d (entry_name e)) = ''.csv'')"

text \<open>The specification's words: drop the first data row of the file, take the trailing
  window of up to four of the rows that remain, pool over the matching files.\<close>

definition spec_window :: "'a list \<Rightarrow> 'a list" where
  "spec_window rows = (let remaining = drop 1 rows in drop (length remaining - 4) remaining)"

definition spec_pool :: "string \<Rightarrow> dir_entry list \<Rightarrow> row list" where
  "spec_pool d entries = concat (map (\<lambda>e. spec_window (entry_rows e)) (filter (is_log_file d) entries))"

text \<open>The (return, length) pair of a row whose \<open>r\<close> and \<open>l\<close> cells are numbers.\<close>

definition row_values :: "row \<Rightarrow> (real \<times> real) option" where
  "row_values row =
     (case row ''r'' of
        Some (Number r) \<Rightarrow> (case row ''l'' of Some (Number l) \<Rightarrow> Some (r, l) | _ \<Rightarrow> None)
      | _ \<Rightarrow> None)"

text \<open>Arithmetic mean and population standard deviation (divisor N).\<close>

definition spec_mean :: "real list \<Rightarrow> real" where
  "spec_mean xs = (\<Sum>x\<leftarrow>xs. x) / real (length xs)"

definition spec_pstd :: "real list \<Rightarrow> real" where
  "spec_pstd xs = sqrt ((\<Sum>x\<leftarrow>xs. (x - spec_mean xs) ^ 2) / real (length xs))"

definition spec_aggregate :: "(real \<times> real) list \<Rightarrow> stats option" where
  "spec_aggregate pairs =
     (if pairs = [] then None
      else Some (spec_mean (map fst pairs), spec_pstd (map fst pairs),
                 spec_mean (map snd pairs), spec_pstd (map snd pairs)))"

text \<open>Mean and population standard deviation of a multiset of numbers, and the
  aggregate of a multiset of (return, length) pairs.\<close>

definition mean_mset :: "real multiset \<Rightarrow> real" where
  "mean_mset M = sum_mset M / real (size M)"

definition pstd_mset :: "real multiset \<Rightarrow> real" where
  "pstd_mset M = sqrt (sum_mset (image_mset (\<lambda>x. (x - mean_mset M) ^ 2) M) / real (size M))"

definition spec_aggregate_mset :: "(real \<times> real) multiset \<Rightarrow> stats option" where
  "spec_aggregate_mset P =
     (if P = {#} then None
      else Some (mean_mset (image_mset fst P), pstd_mset (image_mset fst P),
                 mean_mset (image_mset snd P), pstd_mset (image_mset snd P)))"

text \<open>The order on the values of \<open>best_mean_reward\<close>: minus infinity lies below
  every number.\<close>

fun best_le :: "best \<Rightarrow> best \<Rightarrow> bool" where
  "best_le MinusInf b = True"
| "best_le (Finite a) MinusInf = False"
| "best_le (Finite a) (Finite b) = (a \<le> b)"

text \<open>A checkpoint write is a call of the model's \<open>save\<close>.\<close>

fun is_save :: "effect \<Rightarrow> bool" where
  "is_save (SaveModel path) = True"
| "is_save other = False"

text \<open>
  The life of the monitor: the training loop calls the hook once per step, each time
  with what the outside answers at that step. The base class of the training library
  (\<open>BaseCallback.on_step\<close>) increments \<open>n_calls\<close> before it calls \<open>_on_step\<close>;
  an exception leaves the training loop.
\<close>

fun run :: "world list \<Rightarrow> callback \<Rightarrow> callback" where
  "run [] self = self"
| "run (w # ws) self =
     (case on_step w (self\<lparr>n_calls := n_calls self + 1\<rparr>) of
        (Returned continue, effects, self') \<Rightarrow> run ws self'
      | (Raised e, effects, self') \<Rightarrow> self')"

text \<open>Nothing that \<open>_on_step\<close> does raises: both frequencies are non-zero, every
  pooled row holds numbers, and evaluation and video recording succeed.\<close>

definition no_fault :: "world \<Rightarrow> callback \<Rightarrow> bool" where
  "no_fault w self =
     (logs_freq self \<noteq> 0 \<and> evaluate_freq self \<noteq> 0
      \<and> list_all (\<lambda>row. row_values row \<noteq> None) (spec_pool (log_dir self) (listing w))
      \<and> (case evaluate_policy w of Inl e \<Rightarrow> False | Inr episodes \<Rightarrow> True)
      \<and> video_fault w = None)"

text \<open>The steps of \<open>_init_callback\<close> that follow the upload of the hyperparameter
  text: the log-directory text, the optional comment, the creation of the log directory
  when it is missing.\<close>

definition remaining_init_steps :: "world \<Rightarrow> callback \<Rightarrow> effect list" where
  "remaining_init_steps w self =
     [LogText ''Path to local files'' (log_dir self)]
     @ (case comment self of None \<Rightarrow> [] | Some c \<Rightarrow> [LogText ''Comment'' c])
     @ (if log_dir_exists w then [] else [Mkdir (log_dir self)])"

text \<open>An upload of the \<open>Model Params\<close> text.\<close>

fun is_model_params :: "effect \<Rightarrow> bool" where
  "is_model_params (LogText name text) = (name = ''Model Params'')"
| "is_model_params other = False"

text \<open>The statistics of a list of (return, length) pairs taken in the order of the list,
  for a given mean and standard deviation.\<close>

definition pooled_stats ::
  "(real list \<Rightarrow> real) \<Rightarrow> (real list \<Rightarrow> real) \<Rightarrow> (real \<times> real) list \<Rightarrow> stats option" where
  "pooled_stats mean std pairs =
     (if pairs = [] then None
      else Some (mean (map fst pairs), std (map fst pairs),
                 mean (map snd pairs), std (map snd pairs)))"

text \<open>No call of \<open>_init_callback\<close> other than the upload of the hyperparameter text
  raises.\<close>

definition no_other_init_fault :: "world \<Rightarrow> callback \<Rightarrow> bool" where
  "no_other_init_fault w self =
     (session_fault w = None \<and> create_experiment_fault w = None \<and> append_tags_fault w = None
      \<and> path_text_fault w = None
      \<and> (comment self \<noteq> None \<longrightarrow> comment_fault w = None)
      \<and> (\<not> log_dir_exists w \<longrightarrow> mkdir_fault w = None))"

section \<open>Example data\<close>

definition mk_row :: "real \<Rightarrow> real \<Rightarrow> row" where
  "mk_row r l = [''r'' \<mapsto> Number r, ''l'' \<mapsto> Number l, ''t'' \<mapsto> Number 0]"

definition mk_file :: "string \<Rightarrow> row list \<Rightarrow> dir_entry" where
  "mk_file name rows = \<lparr> entry_name = name, entry_is_file = True, entry_rows = rows \<rparr>"

definition example_callback :: callback where
  "example_callback =
     init ''PPO'' ''Hopper-v2'' ''account'' ''project'' ''experiment'' ''logs''
       None None None 100 10000 1000 False"

definition quiet_world :: world where
  "quiet_world =
     \<lparr> listing = [], log_dir_exists = True, evaluate_policy = Inr ([1, 2, 3, 4, 5], [10, 10, 10, 10, 10]),
       video_fault = None, session_fault = None, create_experiment_fault = None,
       append_tags_fault = None, params_upload_fault = None, path_text_fault = None,
       comment_fault = None, mkdir_fault = None \<rparr>"

definition example_listing :: "dir_entry list" where
  "example_listing =
     [mk_file ''0.monitor.csv'' [mk_row 9 9, mk_row 1 10, mk_row 3 12],
      \<lparr> entry_name = ''old.csv'', entry_is_file = False, entry_rows = [] \<rparr>,
      mk_file ''notes.txt'' [mk_row 5 5, mk_row 6 6],
      mk_file ''1.monitor.csv'' [mk_row 7 7],
      mk_file ''2.monitor.csv'' [mk_row 0 0, mk_row 8 8, mk_row 1 10, mk_row 3 12, mk_row 1 10, mk_row 3 12]]"

definition stepping_callback :: "best \<Rightarrow> callback" where
  "stepping_callback b = example_callback\<lparr>best_mean_reward := b, n_calls := 10000\<rparr>"

definition sparse_listing :: "dir_entry list" where
  "sparse_listing =
     [\<lparr> entry_name = ''old.csv'', entry_is_file = False, entry_rows = [] \<rparr>,
      mk_file ''notes.txt'' [mk_row 5 5, mk_row 6 6],
      mk_file ''0.monitor.csv'' [],
      mk_file ''1.monitor.csv'' [mk_row 7 7]]"

definition tuned_callback :: callback where
  "tuned_callback =
     init ''PPO'' ''Hopper-v2'' ''account'' ''project'' ''experiment'' ''logs''
       (Some 7) (Some [(''lr'', ''0.1''), (''gamma'', ''0.99'')]) (Some ''first run'')
       100 10000 1000 False"

text \<open>Two log files whose returns are the binary64 numbers that \<open>float\<close> reads from
  the texts 0.1, 0.2 and 0.3.\<close>

definition tenth_file :: dir_entry where
  "tenth_file = mk_file ''0.monitor.csv'' [mk_row 0 0, mk_row (round_f64 (1 / 10)) 10]"

definition fifths_file :: dir_entry where
  "fifths_file =
     mk_file ''1.monitor.csv''
       [mk_row 0 0, mk_row (round_f64 (1 / 5)) 10, mk_row (round_f64 (3 / 10)) 10]"

section \<open>Log aggregation\<close>

lemma np_mean_spec: "np_mean xs = spec_mean xs"
  by (simp add: np_mean_def spec_mean_def)

lemma np_std_spec: "np_std xs = spec_pstd xs"
  by (simp add: np_std_def spec_pstd_def np_mean_def spec_mean_def comp_def)

lemma append_rows_values:
  "map row_values rows = map Some pairs \<Longrightarrow>
   append_rows rows (rs, ls) = Inr (rs @ map fst pairs, ls @ map snd pairs)"
proof (induction rows arbitrary: pairs rs ls)
  case Nil
  then show ?case by simp
next
  case (Cons row rows)
  then obtain p ps where ps: "pairs = p # ps" "row_values row = Some p" "map row_values rows = map Some ps"
    by (cases pairs) auto
  from ps(2) have "float_of row ''r'' = Inr (fst p)" "float_of row ''l'' = Inr (snd p)"
    by (auto simp: row_values_def float_of_def split: option.splits cell.splits)
  with Cons.IH [OF ps(3)] ps(1) show ?case by simp
qed

lemma window_code:
  "drop 1 rows \<noteq> [] \<Longrightarrow>
   py_slice_last (min 4 (length (drop 1 rows))) (drop 1 rows) = spec_window rows"
  by (cases "drop 1 rows") (auto simp: py_slice_last_def spec_window_def Let_def min_def)

lemma window_empty: "drop 1 rows = [] \<Longrightarrow> spec_window rows = []"
  by (simp add: spec_window_def)

lemma load_loop_skip:
  "\<not> is_log_file d e \<Longrightarrow> load_loop d (e # es) acc = load_loop d es acc"
  by (auto simp: is_log_file_def Let_def)

lemma load_loop_header_only:
  "drop 1 (entry_rows e) = [] \<Longrightarrow> load_loop d (e # es) acc = load_loop d es acc"
  by (auto simp: Let_def)

lemma load_loop_file:
  assumes "is_log_file d e" "drop 1 (entry_rows e) \<noteq> []"
  shows "load_loop d (e # es) acc =
           (case append_rows (spec_window (entry_rows e)) acc of
              Inl err \<Rightarrow> Inl err
            | Inr acc' \<Rightarrow> load_loop d es acc')"
proof -
  have "length (drop 1 (entry_rows e)) \<noteq> 0" using assms(2) by simp
  moreover have "entry_is_file e"
    "py_slice_last (length ''.csv'') (path_join d (entry_name e)) = ''.csv''"
    using assms(1) by (simp_all add: is_log_file_def)
  ultimately show ?thesis
    unfolding load_loop.simps Let_def window_code [OF assms(2)] by (simp only: if_True if_False simp_thms)
qed

lemma load_loop_values:
  "map row_values (spec_pool d es) = map Some pairs \<Longrightarrow>
   load_loop d es (rs, ls) = Inr (rs @ map fst pairs, ls @ map snd pairs)"
proof (induction es arbitrary: pairs rs ls)
  case Nil
  then show ?case by (simp add: spec_pool_def)
next
  case (Cons e es)
  show ?case
  proof (cases "is_log_file d e")
    case False
    with Cons.prems have "map row_values (spec_pool d es) = map Some pairs"
      by (simp add: spec_pool_def)
    from Cons.IH [OF this] show ?thesis
      by (simp only: load_loop_skip [OF False])
  next
    case True
    then have pool: "spec_pool d (e # es) = spec_window (entry_rows e) @ spec_pool d es"
      by (simp add: spec_pool_def)
    with Cons.prems obtain p1 p2 where split:
      "pairs = p1 @ p2" "map row_values (spec_window (entry_rows e)) = map Some p1"
      "map row_values (spec_pool d es) = map Some p2"
      by (auto simp: map_eq_append_conv append_eq_map_conv)
    show ?thesis
    proof (cases "drop 1 (entry_rows e) = []")
      case empty: True
      then have "p1 = []" using split(2) by (simp add: window_empty)
      with Cons.IH [OF split(3)] split(1) show ?thesis
        by (simp only: load_loop_header_only [OF empty] append_Nil)
    next
      case nonempty: False
      have "append_rows (spec_window (entry_rows e)) (rs, ls) = Inr (rs @ map fst p1, ls @ map snd p1)"
        by (rule append_rows_values [OF split(2)])
      with Cons.IH [OF split(3)] split(1) show ?thesis
        by (simp add: load_loop_file [OF True nonempty] del: load_loop.simps)
    qed
  qed
qed

lemma row_values_mk_row [simp]: "row_values (mk_row r l) = Some (r, l)"
  by (simp add: row_values_def mk_row_def)

lemma ex_pool: "spec_pool ''logs'' example_listing = [mk_row 1 10, mk_row 3 12, mk_row 1 10, mk_row 3 12, mk_row 1 10, mk_row 3 12]"
  by (simp add: spec_pool_def example_listing_def is_log_file_def mk_file_def path_join_def py_slice_last_def spec_window_def)

text \<open>
  C3. For every matching log file, \<open>_load_logs\<close> drops the file's first data row,
  keeps the trailing window of up to four of the remaining rows, pools the
  (return, length) pairs of all matching files, and returns the arithmetic mean and the
  population standard deviation of the pooled returns and of the pooled lengths
  (or nothing when the pool is empty).
\<close>

theorem load_logs_pools_per_file_windows:
  assumes "map row_values (spec_pool (log_dir self) (listing w)) = map Some pairs"
  shows "load_logs w self = Inr (spec_aggregate pairs)"
  using load_loop_values [OF assms, of "[]" "[]"]
  by (simp add: load_logs_def spec_aggregate_def np_mean_spec np_std_spec)

theorem load_logs_pools_per_file_windows_witness:
  "map row_values (spec_pool (log_dir example_callback)
      (listing (quiet_world\<lparr>listing := example_listing\<rparr>)))
     = map Some [(1, 10), (3, 12), (1, 10), (3, 12), (1, 10), (3, 12)]
   \<and> load_logs (quiet_world\<lparr>listing := example_listing\<rparr>) example_callback = Inr (Some (2, 1, 11, 1))"
proof -
  have pool: "map row_values (spec_pool (log_dir example_callback)
      (listing (quiet_world\<lparr>listing := example_listing\<rparr>)))
     = map Some [(1, 10), (3, 12), (1, 10), (3, 12), (1, 10), (3, 12)]"
    by (simp add: example_callback_def init_def ex_pool)
  have "spec_aggregate [(1, 10), (3, 12), (1, 10), (3, 12), (1, 10), (3, 12)] = Some (2, 1, 11, 1)"
    by (simp add: spec_aggregate_def spec_mean_def spec_pstd_def)
  with load_logs_pools_per_file_windows [OF pool] pool show ?thesis by simp
qed

lemma load_logs_values:
  assumes "map row_values (spec_pool (log_dir self) (listing w)) = map Some pairs"
  shows "load_logs w self = Inr (spec_aggregate pairs)"
  using load_loop_values [OF assms, of "[]" "[]"]
  by (simp add: load_logs_def spec_aggregate_def np_mean_spec np_std_spec)

lemma spec_mean_mset: "spec_mean xs = mean_mset (mset xs)"
  by (simp add: spec_mean_def mean_mset_def sum_mset_sum_list)

lemma spec_pstd_mset: "spec_pstd xs = pstd_mset (mset xs)"
proof -
  have "(\<Sum>x\<leftarrow>xs. (x - mean_mset (mset xs)) ^ 2)
        = sum_mset (image_mset (\<lambda>x. (x - mean_mset (mset xs)) ^ 2) (mset xs))"
    by (simp flip: sum_mset_sum_list)
  then show ?thesis
    by (simp add: spec_pstd_def pstd_mset_def spec_mean_mset)
qed

lemma spec_aggregate_mset_of_list: "spec_aggregate pairs = spec_aggregate_mset (mset pairs)"
  by (simp add: spec_aggregate_def spec_aggregate_mset_def spec_mean_mset spec_pstd_mset)

lemma load_logs_is_with: "load_logs w self = load_logs_with np_mean np_std w self"
  by (simp add: load_logs_def load_logs_with_def)

lemma load_logs_with_values:
  assumes "map row_values (spec_pool (log_dir self) (listing w)) = map Some pairs"
  shows "load_logs_with mean std w self = Inr (pooled_stats mean std pairs)"
  using load_loop_values [OF assms, of "[]" "[]"]
  by (simp add: load_logs_with_def pooled_stats_def)

lemma pooled_stats_exact:
  "pooled_stats np_mean np_std pairs = spec_aggregate_mset (mset pairs)"
proof -
  have "pooled_stats np_mean np_std pairs = spec_aggregate pairs"
    by (simp add: pooled_stats_def spec_aggregate_def np_mean_spec np_std_spec)
  then show ?thesis
    by (simp only: spec_aggregate_mset_of_list)
qed

subsection \<open>Rounding to binary64 at given numbers\<close>

lemma binade_eqI:
  assumes "2 powi e \<le> \<bar>x\<bar>" "\<bar>x\<bar> < 2 powi (e + 1)"
  shows "binade x = e"
proof -
  have "(0::real) < 2 powi e"
    by simp
  with assms(1) have pos: "0 < \<bar>x\<bar>"
    by linarith
  have p: "(2::real) powi k = 2 powr of_int k" for k
    by (simp add: powr_real_of_int')
  have "of_int e \<le> log 2 \<bar>x\<bar>"
    using assms(1) pos by (simp add: le_log_iff p)
  moreover have "log 2 \<bar>x\<bar> < of_int e + 1"
    using assms(2) pos by (simp add: log_less_iff p add.commute)
  ultimately show ?thesis
    unfolding binade_def by (rule floor_unique)
qed

lemma round_f64_eval:
  assumes "2 powi e \<le> \<bar>x\<bar>" "\<bar>x\<bar> < 2 powi (e + 1)"
    and "of_int (round_to_even (x / 2 powi (e - 52))) * 2 powi (e - 52) = y"
  shows "round_f64 x = y"
proof -
  have "(0::real) < 2 powi e"
    by simp
  with assms(1) have "0 < \<bar>x\<bar>"
    by linarith
  then have "x \<noteq> 0"
    by simp
  then show ?thesis
    using assms(3) by (simp add: round_f64_def binade_eqI [OF assms(1,2)])
qed

lemma f64_tenth: "round_f64 (1 / 10) = 3602879701896397 / 2 ^ 55"
  by (rule round_f64_eval [where e = "- 4"])
     (simp_all add: round_to_even_def power_int_minus Let_def)

lemma f64_fifth: "round_f64 (1 / 5) = 3602879701896397 / 2 ^ 54"
  by (rule round_f64_eval [where e = "- 3"])
     (simp_all add: round_to_even_def power_int_minus Let_def)

lemma f64_three_tenths: "round_f64 (3 / 10) = 5404319552844595 / 2 ^ 54"
  by (rule round_f64_eval [where e = "- 2"])
     (simp_all add: round_to_even_def power_int_minus Let_def)

text \<open>Adding 0.1, 0.2, 0.3 in this order gives 0.6000000000000001.\<close>

lemma f64_sum_tenth_first:
  "f64_sum [3602879701896397 / 2 ^ 55, 3602879701896397 / 2 ^ 54, 5404319552844595 / 2 ^ 54]
     = 1351079888211149 / 2 ^ 51"
proof -
  have a: "round_f64 (3602879701896397 / 2 ^ 55) = 3602879701896397 / 2 ^ 55"
    by (rule round_f64_eval [where e = "- 4"])
       (simp_all add: round_to_even_def power_int_minus Let_def)
  have b: "round_f64 (3602879701896397 / 2 ^ 55 + 3602879701896397 / 2 ^ 54)
             = 1351079888211149 / 2 ^ 52"
    by (rule round_f64_eval [where e = "- 2"])
       (simp_all add: round_to_even_def power_int_minus Let_def)
  have c: "round_f64 (1351079888211149 / 2 ^ 52 + 5404319552844595 / 2 ^ 54)
             = 1351079888211149 / 2 ^ 51"
    by (rule round_f64_eval [where e = "- 1"])
       (simp_all add: round_to_even_def power_int_minus Let_def)
  show ?thesis
    unfolding f64_sum_def foldl.simps add_0 a b c ..
qed

text \<open>Adding 0.2, 0.3, 0.1 in this order gives 0.6.\<close>

lemma f64_sum_fifths_first:
  "f64_sum [3602879701896397 / 2 ^ 54, 5404319552844595 / 2 ^ 54, 3602879701896397 / 2 ^ 55]
     = 5404319552844595 / 2 ^ 53"
proof -
  have a: "round_f64 (3602879701896397 / 2 ^ 54) = 3602879701896397 / 2 ^ 54"
    by (rule round_f64_eval [where e = "- 3"])
       (simp_all add: round_to_even_def power_int_minus Let_def)
  have b: "round_f64 (3602879701896397 / 2 ^ 54 + 5404319552844595 / 2 ^ 54) = 1 / 2"
    by (rule round_f64_eval [where e = "- 1"])
       (simp_all add: round_to_even_def power_int_minus Let_def)
  have c: "round_f64 (1 / 2 + 3602879701896397 / 2 ^ 55) = 5404319552844595 / 2 ^ 53"
    by (rule round_f64_eval [where e = "- 1"])
       (simp_all add: round_to_even_def power_int_minus Let_def)
  show ?thesis
    unfolding f64_sum_def foldl.simps add_0 a b c ..
qed

text \<open>The two means are 0.20000000000000004 and 0.19999999999999998.\<close>

lemma np_mean_f64_tenth_first:
  "np_mean_f64 [3602879701896397 / 2 ^ 55, 3602879701896397 / 2 ^ 54, 5404319552844595 / 2 ^ 54]
     = 7205759403792795 / 2 ^ 55"
  unfolding np_mean_f64_def f64_sum_tenth_first
  by (rule round_f64_eval [where e = "- 3"])
     (simp_all add: round_to_even_def power_int_minus Let_def)

lemma np_mean_f64_fifths_first:
  "np_mean_f64 [3602879701896397 / 2 ^ 54, 5404319552844595 / 2 ^ 54, 3602879701896397 / 2 ^ 55]
     = 7205759403792793 / 2 ^ 55"
  unfolding np_mean_f64_def f64_sum_fifths_first
  by (rule round_f64_eval [where e = "- 3"])
     (simp_all add: round_to_even_def power_int_minus Let_def)

lemma tenth_fifths_pool:
  "map row_values (spec_pool ''logs'' [tenth_file, fifths_file])
     = map Some [(3602879701896397 / 2 ^ 55, 10), (3602879701896397 / 2 ^ 54, 10),
                 (5404319552844595 / 2 ^ 54, 10)]"
  "map row_values (spec_pool ''logs'' [fifths_file, tenth_file])
     = map Some [(3602879701896397 / 2 ^ 54, 10), (5404319552844595 / 2 ^ 54, 10),
                 (3602879701896397 / 2 ^ 55, 10)]"
  by (simp_all add: spec_pool_def tenth_file_def fifths_file_def is_log_file_def mk_file_def
        path_join_def py_slice_last_def spec_window_def f64_tenth f64_fifth f64_three_tenths)

text \<open>
  C7, as stated, fails in the arithmetic of the program: with one file holding the
  return 0.1 and the other the returns 0.2 and 0.3 after their first rows, the mean
  reward is 0.20000000000000004 when the first file is listed first and
  0.19999999999999998 when the second is.
\<close>

theorem load_logs_listing_order_counterexample:
  "load_logs_with np_mean_f64 np_std_f64
      (quiet_world\<lparr>listing := [tenth_file, fifths_file]\<rparr>) example_callback
   \<noteq> load_logs_with np_mean_f64 np_std_f64
      (quiet_world\<lparr>listing := [fifths_file, tenth_file]\<rparr>) example_callback"
proof -
  have d: "log_dir example_callback = ''logs''"
    by (simp add: example_callback_def init_def)
  have a: "load_logs_with np_mean_f64 np_std_f64
             (quiet_world\<lparr>listing := [tenth_file, fifths_file]\<rparr>) example_callback
           = Inr (pooled_stats np_mean_f64 np_std_f64
               [(3602879701896397 / 2 ^ 55, 10), (3602879701896397 / 2 ^ 54, 10),
                (5404319552844595 / 2 ^ 54, 10)])"
    by (rule load_logs_with_values) (simp add: d tenth_fifths_pool(1))
  have b: "load_logs_with np_mean_f64 np_std_f64
             (quiet_world\<lparr>listing := [fifths_file, tenth_file]\<rparr>) example_callback
           = Inr (pooled_stats np_mean_f64 np_std_f64
               [(3602879701896397 / 2 ^ 54, 10), (5404319552844595 / 2 ^ 54, 10),
                (3602879701896397 / 2 ^ 55, 10)])"
    by (rule load_logs_with_values) (simp add: d tenth_fifths_pool(2))
  have "(7205759403792795 :: real) / 2 ^ 55 \<noteq> 7205759403792793 / 2 ^ 55"
    by simp
  then show ?thesis
    unfolding a b pooled_stats_def
    by (simp only: list.map fst_conv np_mean_f64_tenth_first np_mean_f64_fifths_first
          sum.inject option.inject prod.inject list.distinct if_False simp_thms not_False_eq_True)
qed

text \<open>
  C7, amended. For two log files, each contributing its trailing window of up to four
  rows after its first row is dropped, \<open>_load_logs\<close> applies the mean and the standard
  deviation to the rows of both files pooled in the order in which the files are listed.
  The pooled rows are the same multiset for either order, so when the two functions are
  computed exactly the result is the mean and the population standard deviation of the
  pooled multiset and is the same for both orders.
\<close>

theorem load_logs_two_files_pooled:
  assumes "is_log_file (log_dir self) f1" "is_log_file (log_dir self) f2"
    and "map row_values (spec_window (entry_rows f1)) = map Some p1"
    and "map row_values (spec_window (entry_rows f2)) = map Some p2"
    and "listing w = [f1, f2]" "listing w' = [f2, f1]"
  shows "load_logs_with mean std w self = Inr (pooled_stats mean std (p1 @ p2))
       \<and> load_logs_with mean std w' self = Inr (pooled_stats mean std (p2 @ p1))
       \<and> mset (p1 @ p2) = mset (p2 @ p1)
       \<and> load_logs_with np_mean np_std w self = Inr (spec_aggregate_mset (mset p1 + mset p2))
       \<and> load_logs_with np_mean np_std w' self = load_logs_with np_mean np_std w self"
proof -
  have "map row_values (spec_pool (log_dir self) (listing w)) = map Some (p1 @ p2)"
    using assms by (simp add: spec_pool_def)
  note a = load_logs_with_values [OF this]
  have "map row_values (spec_pool (log_dir self) (listing w')) = map Some (p2 @ p1)"
    using assms by (simp add: spec_pool_def)
  note b = load_logs_with_values [OF this]
  have "load_logs_with np_mean np_std w self = Inr (spec_aggregate_mset (mset p1 + mset p2))"
    by (simp add: a pooled_stats_exact)
  moreover have "load_logs_with np_mean np_std w' self = Inr (spec_aggregate_mset (mset p1 + mset p2))"
    by (simp add: b pooled_stats_exact add.commute)
  ultimately show ?thesis
    using a [of mean std] b [of mean std] by simp
qed

theorem load_logs_two_files_pooled_witness:
  "load_logs_with np_mean np_std (quiet_world\<lparr>listing :=
        [mk_file ''0.monitor.csv'' [mk_row 9 9, mk_row 1 10, mk_row 3 12],
         mk_file ''1.monitor.csv'' [mk_row 0 0, mk_row 8 8, mk_row 1 10, mk_row 3 12, mk_row 1 10, mk_row 3 12]]\<rparr>)
      example_callback
    = Inr (Some (2, 1, 11, 1))
   \<and> load_logs_with np_mean np_std (quiet_world\<lparr>listing :=
        [mk_file ''1.monitor.csv'' [mk_row 0 0, mk_row 8 8, mk_row 1 10, mk_row 3 12, mk_row 1 10, mk_row 3 12],
         mk_file ''0.monitor.csv'' [mk_row 9 9, mk_row 1 10, mk_row 3 12]]\<rparr>)
      example_callback
    = Inr (Some (2, 1, 11, 1))"
proof -
  let ?f1 = "mk_file ''0.monitor.csv'' [mk_row 9 9, mk_row 1 10, mk_row 3 12]"
  let ?f2 = "mk_file ''1.monitor.csv'' [mk_row 0 0, mk_row 8 8, mk_row 1 10, mk_row 3 12, mk_row 1 10, mk_row 3 12]"
  let ?p1 = "[(1, 10), (3, 12)] :: (real \<times> real) list"
  let ?p2 = "[(1, 10), (3, 12), (1, 10), (3, 12)] :: (real \<times> real) list"
  have d: "log_dir example_callback = ''logs''"
    by (simp add: example_callback_def init_def)
  have m1: "is_log_file (log_dir example_callback) ?f1"
    unfolding d by (simp add: is_log_file_def mk_file_def path_join_def py_slice_last_def)
  have m2: "is_log_file (log_dir example_callback) ?f2"
    unfolding d by (simp add: is_log_file_def mk_file_def path_join_def py_slice_last_def)
  have r1: "map row_values (spec_window (entry_rows ?f1)) = map Some ?p1"
    by (simp add: mk_file_def spec_window_def)
  have r2: "map row_values (spec_window (entry_rows ?f2)) = map Some ?p2"
    by (simp add: mk_file_def spec_window_def)
  have agg: "spec_aggregate_mset (mset ?p1 + mset ?p2) = Some (2, 1, 11, 1)"
    by (simp add: spec_aggregate_mset_def mean_mset_def pstd_mset_def)
  have l: "listing (quiet_world\<lparr>listing := fs\<rparr>) = fs" for fs
    by simp
  from load_logs_two_files_pooled [OF m1 m2 r1 r2 l l, of np_mean np_std]
  have "load_logs_with np_mean np_std (quiet_world\<lparr>listing := [?f1, ?f2]\<rparr>) example_callback
          = Inr (spec_aggregate_mset (mset ?p1 + mset ?p2))"
    and "load_logs_with np_mean np_std (quiet_world\<lparr>listing := [?f2, ?f1]\<rparr>) example_callback
          = load_logs_with np_mean np_std (quiet_world\<lparr>listing := [?f1, ?f2]\<rparr>) example_callback"
    by blast+
  then show ?thesis
    by (simp only: agg simp_thms)
qed

text \<open>
  C2, as stated, fails: a single log file with exactly one data row yields no data,
  because the file's first data row is dropped before anything is kept.
\<close>

theorem load_logs_single_row_counterexample:
  "load_logs (quiet_world\<lparr>listing := [mk_file ''0.monitor.csv'' [mk_row 7 42]]\<rparr>) example_callback
     = Inr None
   \<and> load_logs (quiet_world\<lparr>listing := [mk_file ''0.monitor.csv'' [mk_row 7 42]]\<rparr>) example_callback
     \<noteq> Inr (Some (7, 0, 42, 0))"
  by (simp add: load_logs_def mk_file_def)

text \<open>
  C2, amended. For a directory whose only entry is a matching log file: with exactly one
  data row \<open>_load_logs\<close> returns nothing; with exactly two data rows it returns the
  second row's return as the mean reward and its length as the mean length, both
  standard deviations being 0.
\<close>

theorem load_logs_single_file:
  assumes "listing w = [e]" "is_log_file (log_dir self) e"
  shows "(entry_rows e = [row0] \<longrightarrow> load_logs w self = Inr None)
       \<and> (entry_rows e = [row0, row1] \<and> row_values row1 = Some (r, l) \<longrightarrow>
            load_logs w self = Inr (Some (r, 0, l, 0)))"
proof (intro conjI impI)
  assume "entry_rows e = [row0]"
  then have "map row_values (spec_pool (log_dir self) (listing w)) = map Some []"
    using assms by (simp add: spec_pool_def spec_window_def)
  from load_logs_values [OF this] show "load_logs w self = Inr None"
    by (simp add: spec_aggregate_def)
next
  assume "entry_rows e = [row0, row1] \<and> row_values row1 = Some (r, l)"
  then have "map row_values (spec_pool (log_dir self) (listing w)) = map Some [(r, l)]"
    using assms by (simp add: spec_pool_def spec_window_def)
  from load_logs_values [OF this] show "load_logs w self = Inr (Some (r, 0, l, 0))"
    by (simp add: spec_aggregate_def spec_mean_def spec_pstd_def)
qed

theorem load_logs_single_file_witness:
  "load_logs (quiet_world\<lparr>listing := [mk_file ''0.monitor.csv'' [mk_row 7 42]]\<rparr>) example_callback
     = Inr None
   \<and> load_logs (quiet_world\<lparr>listing := [mk_file ''0.monitor.csv'' [mk_row 7 42, mk_row 8 43]]\<rparr>)
       example_callback
     = Inr (Some (8, 0, 43, 0))"
proof -
  have d: "log_dir example_callback = ''logs''"
    by (simp add: example_callback_def init_def)
  have m: "is_log_file (log_dir example_callback) (mk_file ''0.monitor.csv'' rows)" for rows
    unfolding d by (simp add: is_log_file_def mk_file_def path_join_def py_slice_last_def)
  have one: "entry_rows (mk_file ''0.monitor.csv'' [mk_row 7 42]) = [mk_row 7 42]"
    by (simp add: mk_file_def)
  have two: "entry_rows (mk_file ''0.monitor.csv'' [mk_row 7 42, mk_row 8 43]) = [mk_row 7 42, mk_row 8 43]
             \<and> row_values (mk_row 8 43) = Some (8, 43)"
    by (simp add: mk_file_def)
  show ?thesis
    using load_logs_single_file [OF _ m, of "quiet_world\<lparr>listing := [mk_file ''0.monitor.csv'' [mk_row 7 42]]\<rparr>"
        "[mk_row 7 42]" "mk_row 7 42" undefined undefined undefined]
      load_logs_single_file [OF _ m, of "quiet_world\<lparr>listing := [mk_file ''0.monitor.csv'' [mk_row 7 42, mk_row 8 43]]\<rparr>"
        "[mk_row 7 42, mk_row 8 43]" "mk_row 7 42" "mk_row 8 43" 8 43]
      one two
    by simp
qed

section \<open>The per-step hook\<close>

lemma best_le_refl: "best_le b b"
  by (cases b) simp_all

lemma best_le_trans: "best_le a b \<Longrightarrow> best_le b c \<Longrightarrow> best_le a c"
  by (cases a; cases b; cases c) simp_all

lemma exceeds_best_le: "exceeds x b \<Longrightarrow> best_le b (Finite x)"
  by (cases b) simp_all

lemma evaluate_trigger_best:
  "best_le (best_mean_reward self) (best_mean_reward (snd (snd (evaluate_trigger w self))))"
  by (auto simp: evaluate_trigger_def Let_def best_le_refl exceeds_best_le
           split: sum.splits prod.splits option.splits)

lemma on_step_best:
  "best_le (best_mean_reward self) (best_mean_reward (snd (snd (on_step w self))))"
proof (cases "log_trigger w self")
  case (Pair out logged)
  show ?thesis
  proof (cases out)
    case None
    obtain r evaluated self' where et: "evaluate_trigger w self = (r, evaluated, self')"
      by (cases "evaluate_trigger w self") auto
    with evaluate_trigger_best [of self w] have "best_le (best_mean_reward self) (best_mean_reward self')"
      by simp
    with Pair None et show ?thesis
      by (cases r) (simp_all add: on_step_def)
  next
    case (Some a)
    with Pair show ?thesis by (simp add: on_step_def best_le_refl)
  qed
qed

lemma run_best: "best_le (best_mean_reward self) (best_mean_reward (run ws self))"
proof (induction ws arbitrary: self)
  case Nil
  show ?case by (simp add: best_le_refl)
next
  case (Cons w ws)
  let ?s = "self\<lparr>n_calls := n_calls self + 1\<rparr>"
  obtain out effects self' where st: "on_step w ?s = (out, effects, self')"
    by (cases "on_step w ?s") auto
  with on_step_best [of ?s w] have le: "best_le (best_mean_reward self) (best_mean_reward self')"
    by simp
  show ?case
  proof (cases out)
    case (Returned b)
    with st le Cons.IH [of self'] show ?thesis
      by (auto intro: best_le_trans)
  next
    case (Raised e)
    with st le show ?thesis by simp
  qed
qed

text \<open>
  C5. \<open>best_mean_reward\<close> is minus infinity after construction, and it never
  decreases: not across one call of \<open>_on_step\<close>, whatever the call's outcome, and
  not across any sequence of calls made by the training loop.
\<close>

theorem best_mean_reward_monotone:
  "best_mean_reward (init model env account project experiment dir seed params note lf ef vl mv)
     = MinusInf
   \<and> best_le (best_mean_reward self) (best_mean_reward (snd (snd (on_step w self))))
   \<and> best_le (best_mean_reward self) (best_mean_reward (run ws self))"
  by (simp add: init_def on_step_best run_best)

lemma stepping_fields:
  "log_dir (stepping_callback b) = ''logs''" "logs_freq (stepping_callback b) = 100"
  "evaluate_freq (stepping_callback b) = 10000" "n_calls (stepping_callback b) = 10000"
  "best_mean_reward (stepping_callback b) = b" "make_video (stepping_callback b) = False"
  by (simp_all add: stepping_callback_def example_callback_def init_def)

lemma sparse_pool: "spec_pool ''logs'' sparse_listing = []"
  by (simp add: spec_pool_def sparse_listing_def is_log_file_def mk_file_def path_join_def
        py_slice_last_def spec_window_def)

lemma example_logs:
  assumes "log_dir self = ''logs''" "listing w = example_listing"
  shows "load_logs w self = Inr (Some (2, 1, 11, 1))"
proof -
  have "map row_values (spec_pool (log_dir self) (listing w))
          = map Some [(1, 10), (3, 12), (1, 10), (3, 12), (1, 10), (3, 12)]"
    using assms by (simp add: ex_pool)
  from load_logs_values [OF this] show ?thesis
    by (simp add: spec_aggregate_def spec_mean_def spec_pstd_def)
qed

lemma quiet_world_fields:
  "listing (quiet_world\<lparr>listing := l\<rparr>) = l"
  "evaluate_policy (quiet_world\<lparr>listing := l\<rparr>) = Inr ([1, 2, 3, 4, 5], [10, 10, 10, 10, 10])"
  "video_fault (quiet_world\<lparr>listing := l\<rparr>) = None"
  by (simp_all add: quiet_world_def)

text \<open>
  C1, at the failing input. With the default frequencies (100 and 10000) at step 10000
  both triggers fire; with an empty log directory \<open>_load_logs\<close> returns nothing and
  \<open>_on_step\<close> returns at once: no evaluation runs, no metric is emitted, no
  checkpoint is written, although \<open>evaluate_policy\<close> would have succeeded.
\<close>

theorem on_step_no_data_skips_evaluation:
  "on_step quiet_world (example_callback\<lparr>n_calls := 10000\<rparr>)
     = (Returned True, [], example_callback\<lparr>n_calls := 10000\<rparr>)"
  by (simp add: on_step_def log_trigger_def py_mod_def load_logs_def quiet_world_def
        example_callback_def init_def)

lemma log_trigger_passes:
  assumes "logs_freq self \<noteq> 0"
    and "n_calls self mod logs_freq self \<noteq> 0 \<or> (\<exists>st. load_logs w self = Inr (Some st))"
  shows "fst (log_trigger w self) = None
       \<and> list_all (\<lambda>e. \<not> is_save e) (snd (log_trigger w self))"
  using assms
  by (auto simp: log_trigger_def py_mod_def split: sum.splits option.splits prod.splits)

lemma evaluate_trigger_checkpoint:
  assumes "evaluate_freq self \<noteq> 0" "n_calls self mod evaluate_freq self = 0"
    and "evaluate_policy w = Inr (episode_rewards, episode_lengths)"
    and "make_video self \<longrightarrow> video_fault w = None"
    and "evaluate_trigger w self = (r, evaluated, self')"
  shows "r = None
       \<and> (if exceeds (np_mean episode_rewards) (best_mean_reward self)
          then filter is_save evaluated = [SaveModel (path_join (log_dir self) ''best_model.plk'')]
             \<and> best_mean_reward self' = Finite (np_mean episode_rewards)
          else filter is_save evaluated = [] \<and> best_mean_reward self' = best_mean_reward self)"
  using assms
  by (auto simp: evaluate_trigger_def py_mod_def evaluate_def make_video_method_def Let_def
           split: if_splits)

text \<open>
  C4. In a call of \<open>_on_step\<close> that evaluates the policy: when the evaluation's mean
  reward strictly exceeds the running best, exactly one checkpoint is written (to
  \<open>best_model.plk\<close> in the log directory) and the running best becomes that mean;
  when it is equal or lower, no checkpoint is written and the running best is unchanged.
\<close>

theorem checkpoint_iff_strictly_better:
  assumes "logs_freq self \<noteq> 0"
    and "n_calls self mod logs_freq self \<noteq> 0 \<or> (\<exists>st. load_logs w self = Inr (Some st))"
    and "evaluate_freq self \<noteq> 0" "n_calls self mod evaluate_freq self = 0"
    and "evaluate_policy w = Inr (episode_rewards, episode_lengths)" "episode_rewards \<noteq> []"
    and "make_video self \<longrightarrow> video_fault w = None"
    and "on_step w self = (out, effects, self')"
  shows "out = Returned True
       \<and> (exceeds (np_mean episode_rewards) (best_mean_reward self) \<longrightarrow>
            filter is_save effects = [SaveModel (path_join (log_dir self) ''best_model.plk'')]
            \<and> best_mean_reward self' = Finite (np_mean episode_rewards))
       \<and> (\<not> exceeds (np_mean episode_rewards) (best_mean_reward self) \<longrightarrow>
            filter is_save effects = [] \<and> best_mean_reward self' = best_mean_reward self)"
proof -
  obtain logged where lt: "log_trigger w self = (None, logged)" "filter is_save logged = []"
    using log_trigger_passes [OF assms(1,2)]
    by (cases "log_trigger w self") (auto simp: filter_empty_conv list_all_iff)
  obtain r evaluated s where et: "evaluate_trigger w self = (r, evaluated, s)"
    by (cases "evaluate_trigger w self") auto
  note cp = evaluate_trigger_checkpoint [OF assms(3,4,5,7) et]
  from cp have r: "r = None" by simp
  from lt et r assms(8) have res: "out = Returned True" "effects = logged @ evaluated" "self' = s"
    by (simp_all add: on_step_def)
  from cp res lt(2) show ?thesis by (simp split: if_splits)
qed

theorem checkpoint_iff_strictly_better_witness:
  "filter is_save (fst (snd (on_step (quiet_world\<lparr>listing := example_listing\<rparr>)
                                      (stepping_callback (Finite 2)))))
     = [SaveModel ''logs/best_model.plk'']
   \<and> best_mean_reward (snd (snd (on_step (quiet_world\<lparr>listing := example_listing\<rparr>)
                                          (stepping_callback (Finite 2)))))
     = Finite 3
   \<and> filter is_save (fst (snd (on_step (quiet_world\<lparr>listing := example_listing\<rparr>)
                                        (stepping_callback (Finite 3)))))
     = []
   \<and> best_mean_reward (snd (snd (on_step (quiet_world\<lparr>listing := example_listing\<rparr>)
                                          (stepping_callback (Finite 3)))))
     = Finite 3"
proof -
  let ?w = "quiet_world\<lparr>listing := example_listing\<rparr>"
  have logs: "n_calls (stepping_callback b) mod logs_freq (stepping_callback b) \<noteq> 0
              \<or> (\<exists>st. load_logs ?w (stepping_callback b) = Inr (Some st))" for b
    by (simp add: example_logs stepping_fields quiet_world_fields)
  have mean: "np_mean [1, 2, 3, 4, 5] = 3"
    by (simp add: np_mean_def)
  have step: "on_step ?w (stepping_callback b)
                = (fst (on_step ?w (stepping_callback b)),
                   fst (snd (on_step ?w (stepping_callback b))),
                   snd (snd (on_step ?w (stepping_callback b))))" for b
    by simp
  have path: "path_join ''logs'' ''best_model.plk'' = ''logs/best_model.plk''"
    by (simp add: path_join_def)
  have "logs_freq (stepping_callback b) \<noteq> 0" "evaluate_freq (stepping_callback b) \<noteq> 0"
    "n_calls (stepping_callback b) mod evaluate_freq (stepping_callback b) = 0"
    "make_video (stepping_callback b) \<longrightarrow> video_fault ?w = None"
    "[1, 2, 3, 4, 5] \<noteq> ([] :: real list)" for b
    by (simp_all add: stepping_fields)
  note hyps = this
  show ?thesis
    using checkpoint_iff_strictly_better [OF hyps(1) logs hyps(2,3) quiet_world_fields(2) hyps(5,4) step,
            of "Finite 2"]
          checkpoint_iff_strictly_better [OF hyps(1) logs hyps(2,3) quiet_world_fields(2) hyps(5,4) step,
            of "Finite 3"]
    by (simp add: mean stepping_fields path)
qed

text \<open>
  C6. When no (return, length) pair is accumulated over the matching files, and in
  particular when the directory has no matching file, \<open>_load_logs\<close> returns nothing
  (neither numbers nor an error), and a call of \<open>_on_step\<close> on a logging trigger then
  emits no metric at all.
\<close>

theorem no_data_emits_nothing:
  "(spec_pool (log_dir self) (listing w) = [] \<longrightarrow>
      load_logs w self = Inr None
      \<and> (logs_freq self \<noteq> 0 \<and> n_calls self mod logs_freq self = 0 \<longrightarrow>
           on_step w self = (Returned True, [], self)))
   \<and> ((\<forall>e \<in> set (listing w). \<not> is_log_file (log_dir self) e) \<longrightarrow>
        spec_pool (log_dir self) (listing w) = [])"
proof (intro conjI impI)
  assume "spec_pool (log_dir self) (listing w) = []"
  then have "map row_values (spec_pool (log_dir self) (listing w)) = map Some []" by simp
  from load_logs_values [OF this] show none: "load_logs w self = Inr None"
    by (simp add: spec_aggregate_def)
  assume "logs_freq self \<noteq> 0 \<and> n_calls self mod logs_freq self = 0"
  with none show "on_step w self = (Returned True, [], self)"
    by (simp add: on_step_def log_trigger_def py_mod_def)
next
  assume "\<forall>e \<in> set (listing w). \<not> is_log_file (log_dir self) e"
  then have "filter (is_log_file (log_dir self)) (listing w) = []"
    by (simp add: filter_empty_conv)
  then show "spec_pool (log_dir self) (listing w) = []"
    by (simp add: spec_pool_def)
qed

theorem no_data_emits_nothing_witness:
  "load_logs (quiet_world\<lparr>listing := sparse_listing\<rparr>) (stepping_callback MinusInf) = Inr None
   \<and> on_step (quiet_world\<lparr>listing := sparse_listing\<rparr>) (stepping_callback MinusInf)
       = (Returned True, [], stepping_callback MinusInf)
   \<and> load_logs (quiet_world\<lparr>listing := take 2 sparse_listing\<rparr>) (stepping_callback MinusInf) = Inr None"
proof -
  have none: "\<forall>e \<in> set (listing (quiet_world\<lparr>listing := take 2 sparse_listing\<rparr>)).
                \<not> is_log_file (log_dir (stepping_callback MinusInf)) e"
    by (simp add: quiet_world_fields stepping_fields sparse_listing_def is_log_file_def mk_file_def
          path_join_def py_slice_last_def)
  show ?thesis
    using no_data_emits_nothing [of "stepping_callback MinusInf" "quiet_world\<lparr>listing := sparse_listing\<rparr>"]
          no_data_emits_nothing [of "stepping_callback MinusInf" "quiet_world\<lparr>listing := take 2 sparse_listing\<rparr>"]
          none
    by (simp add: quiet_world_fields stepping_fields sparse_pool)
qed

lemma readable_pool:
  "list_all (\<lambda>row. row_values row \<noteq> None) rows \<Longrightarrow>
   \<exists>pairs. map row_values rows = map Some pairs"
proof (induction rows)
  case Nil
  show ?case by simp
next
  case (Cons row rows)
  then obtain p ps where "row_values row = Some p" "map row_values rows = map Some ps"
    by auto
  then have "map row_values (row # rows) = map Some (p # ps)" by simp
  then show ?case by blast
qed

lemma log_trigger_never_stops:
  "fst (log_trigger w self) = None \<or> fst (log_trigger w self) = Some (Returned True)
   \<or> (\<exists>e. fst (log_trigger w self) = Some (Raised e))"
  by (auto simp: log_trigger_def split: sum.splits option.splits)

lemma on_step_never_stops:
  "fst (on_step w self) = Returned True \<or> (\<exists>e. fst (on_step w self) = Raised e)"
proof -
  obtain out logged where lt: "log_trigger w self = (out, logged)"
    by (cases "log_trigger w self") auto
  obtain r evaluated s where et: "evaluate_trigger w self = (r, evaluated, s)"
    by (cases "evaluate_trigger w self") auto
  from log_trigger_never_stops [of w self] lt et show ?thesis
    by (cases out; cases r) (auto simp: on_step_def)
qed

lemma on_step_returns:
  assumes "no_fault w self"
  shows "fst (on_step w self) = Returned True"
proof -
  from assms obtain pairs where
    "map row_values (spec_pool (log_dir self) (listing w)) = map Some pairs"
    using readable_pool by (auto simp: no_fault_def)
  from load_logs_values [OF this] have ll: "load_logs w self = Inr (spec_aggregate pairs)" .
  obtain out logged where lt: "log_trigger w self = (out, logged)"
    by (cases "log_trigger w self") auto
  with ll assms have out: "out = None \<or> out = Some (Returned True)"
    by (auto simp: log_trigger_def py_mod_def no_fault_def split: if_splits option.splits)
  obtain r evaluated s where et: "evaluate_trigger w self = (r, evaluated, s)"
    by (cases "evaluate_trigger w self") auto
  with assms have "r = None"
    by (auto simp: evaluate_trigger_def py_mod_def evaluate_def make_video_method_def Let_def
          no_fault_def split: if_splits sum.splits)
  with lt et out show ?thesis
    by (auto simp: on_step_def)
qed

text \<open>
  C9. \<open>_on_step\<close> never returns the stop signal: every call either returns
  \<open>True\<close> or is left by an exception, and when nothing raises it returns \<open>True\<close>,
  also when the logs hold no data.
\<close>

theorem on_step_always_continues:
  "(fst (on_step w self) = Returned True \<or> (\<exists>e. fst (on_step w self) = Raised e))
   \<and> (no_fault w self \<longrightarrow> fst (on_step w self) = Returned True)"
  using on_step_never_stops on_step_returns by blast

theorem on_step_always_continues_witness:
  "no_fault (quiet_world\<lparr>listing := example_listing\<rparr>) (stepping_callback MinusInf)
   \<and> fst (on_step (quiet_world\<lparr>listing := example_listing\<rparr>) (stepping_callback MinusInf))
       = Returned True
   \<and> no_fault (quiet_world\<lparr>listing := sparse_listing\<rparr>) (stepping_callback MinusInf)
   \<and> fst (on_step (quiet_world\<lparr>listing := sparse_listing\<rparr>) (stepping_callback MinusInf))
       = Returned True"
proof -
  have a: "no_fault (quiet_world\<lparr>listing := example_listing\<rparr>) (stepping_callback MinusInf)"
    by (simp add: no_fault_def quiet_world_fields stepping_fields ex_pool)
  have b: "no_fault (quiet_world\<lparr>listing := sparse_listing\<rparr>) (stepping_callback MinusInf)"
    by (simp add: no_fault_def quiet_world_fields stepping_fields sparse_pool)
  show ?thesis
    using a b
      on_step_always_continues [of "quiet_world\<lparr>listing := example_listing\<rparr>" "stepping_callback MinusInf"]
      on_step_always_continues [of "quiet_world\<lparr>listing := sparse_listing\<rparr>" "stepping_callback MinusInf"]
    by blast
qed

section \<open>Initialisation\<close>

lemma str_int_7: "str_int 7 = ''7''"
  by code_simp

lemma outside_call_simps [simp]:
  "outside_call None eff rest = (fst rest, eff # snd rest)"
  "outside_call (Some e) eff rest = (Raised e, [])"
  by (simp_all add: outside_call_def)

lemma try_log_model_params_logger:
  "try_log_model_params w (self\<lparr>neptune_logger := session\<rparr>) = try_log_model_params w self"
  by (simp add: try_log_model_params_def model_params_text_def)

lemma try_log_model_params_fault:
  "params_upload_fault w \<noteq> None \<Longrightarrow> try_log_model_params w self = []"
  by (auto simp: try_log_model_params_def split: sum.splits option.splits)


lemma try_log_model_params_only:
  "filter (\<lambda>e. \<not> is_model_params e) (try_log_model_params w self) = []"
  by (simp add: try_log_model_params_def split: sum.splits option.splits)

lemma finish_init_upload [simp]:
  "finish_init (w\<lparr>params_upload_fault := fault\<rparr>) self = finish_init w self"
  by (simp add: finish_init_def cong: option.case_cong)

lemma finish_init_params [simp]:
  "finish_init w (self\<lparr>model_parameter := params\<rparr>) = finish_init w self"
  by (simp add: finish_init_def)

lemma finish_init_not_model_params:
  "list_all (\<lambda>e. \<not> is_model_params e) (snd (finish_init w self))"
  by (simp add: finish_init_def outside_call_def Let_def split: option.splits)

lemma finish_init_ok:
  assumes "path_text_fault w = None" "comment self \<noteq> None \<longrightarrow> comment_fault w = None"
    and "\<not> log_dir_exists w \<longrightarrow> mkdir_fault w = None"
  shows "finish_init w self = (Returned (), remaining_init_steps w self)"
  using assms
  by (auto simp: finish_init_def remaining_init_steps_def Let_def split: option.splits)

lemma remaining_init_steps_upload [simp]:
  "remaining_init_steps (w\<lparr>params_upload_fault := fault\<rparr>) self = remaining_init_steps w self"
  by (simp add: remaining_init_steps_def)

text \<open>The outcome and the effects of \<open>_init_callback\<close>, by the first call that raises.\<close>

lemma init_callback_cases:
  "init_callback w self =
     (let self' = self\<lparr>neptune_logger :=
                          Some (neptune_account_name self @ ''/'' @ project_name self)\<rparr>;
          tags = AppendTags
                   (case random_seed self of
                      None \<Rightarrow> [model_class self, environment_name self]
                    | Some seed \<Rightarrow> [model_class self, environment_name self, ''seed: '' @ str_int seed])
      in case session_fault w of
           Some e \<Rightarrow> (Raised e, [], self)
         | None \<Rightarrow>
             (case create_experiment_fault w of
                Some e \<Rightarrow> (Raised e, [], self')
              | None \<Rightarrow>
                  (case append_tags_fault w of
                     Some e \<Rightarrow> (Raised e, [CreateExperiment (experiment_name self)], self')
                   | None \<Rightarrow>
                       (fst (finish_init w self'),
                        [CreateExperiment (experiment_name self), tags]
                          @ try_log_model_params w self @ snd (finish_init w self'),
                        self'))))"
  by (simp add: init_callback_def Let_def try_log_model_params_logger
        split: option.splits cong: option.case_cong)

lemma finish_init_logger [simp]:
  "finish_init w (self\<lparr>neptune_logger := session\<rparr>) = finish_init w self"
  by (simp add: finish_init_def)

lemma init_callback_no_fault:
  assumes "no_other_init_fault w self"
  shows "fst (init_callback w self) = Returned ()"
    and "\<exists>before. fst (snd (init_callback w self)) = before @ remaining_init_steps w self"
proof -
  have fin: "finish_init w self = (Returned (), remaining_init_steps w self)"
    using assms by (intro finish_init_ok) (simp_all add: no_other_init_fault_def)
  from assms fin show "fst (init_callback w self) = Returned ()"
    by (simp add: init_callback_cases no_other_init_fault_def Let_def)
  from assms fin have "fst (snd (init_callback w self))
      = ([CreateExperiment (experiment_name self),
          AppendTags
            (case random_seed self of
               None \<Rightarrow> [model_class self, environment_name self]
             | Some seed \<Rightarrow> [model_class self, environment_name self, ''seed: '' @ str_int seed])]
         @ try_log_model_params w self) @ remaining_init_steps w self"
    by (simp add: init_callback_cases no_other_init_fault_def Let_def)
  then show "\<exists>before. fst (snd (init_callback w self)) = before @ remaining_init_steps w self"
    by blast
qed

lemma init_callback_not_model_params:
  assumes "try_log_model_params w self = []"
  shows "list_all (\<lambda>e. \<not> is_model_params e) (fst (snd (init_callback w self)))"
  using assms finish_init_not_model_params [of w self]
  by (simp add: init_callback_cases Let_def split: option.splits)

text \<open>When the parent of the log directory is missing, \<open>os.mkdir\<close> raises and
  \<open>_init_callback\<close> is left by that exception, whatever the upload did.\<close>

lemma init_callback_mkdir_raises:
  "fst (init_callback
          (quiet_world\<lparr>log_dir_exists := False, mkdir_fault := Some FileNotFoundError,
                        params_upload_fault := fault\<rparr>)
          (example_callback\<lparr>log_dir := ''missing/logs''\<rparr>))
     = Raised FileNotFoundError"
  by (simp add: init_callback_cases finish_init_def quiet_world_def example_callback_def init_def
        Let_def)

text \<open>
  C8. Whatever the upload of the hyperparameter text does, also when it raises,
  \<open>_init_callback\<close> is not left by it: the outcome of the call, the callback after
  it and every effect other than the \<open>Model Params\<close> text are those of a call whose
  upload succeeds, and when the upload raises no \<open>Model Params\<close> text is recorded.
  When no other call raises, \<open>_init_callback\<close> returns and the steps that follow the
  upload (log-directory text, optional comment, creation of the log directory) are
  carried out.
\<close>

theorem init_survives_params_upload_failure:
  "fst (init_callback (w\<lparr>params_upload_fault := fault\<rparr>) self)
     = fst (init_callback (w\<lparr>params_upload_fault := None\<rparr>) self)
   \<and> snd (snd (init_callback (w\<lparr>params_upload_fault := fault\<rparr>) self))
     = snd (snd (init_callback (w\<lparr>params_upload_fault := None\<rparr>) self))
   \<and> filter (\<lambda>e. \<not> is_model_params e)
       (fst (snd (init_callback (w\<lparr>params_upload_fault := fault\<rparr>) self)))
     = filter (\<lambda>e. \<not> is_model_params e)
         (fst (snd (init_callback (w\<lparr>params_upload_fault := None\<rparr>) self)))
   \<and> (fault \<noteq> None \<longrightarrow>
        list_all (\<lambda>e. \<not> is_model_params e)
          (fst (snd (init_callback (w\<lparr>params_upload_fault := fault\<rparr>) self))))
   \<and> (no_other_init_fault w self \<longrightarrow>
        fst (init_callback (w\<lparr>params_upload_fault := fault\<rparr>) self) = Returned ()
        \<and> (\<exists>before. fst (snd (init_callback (w\<lparr>params_upload_fault := fault\<rparr>) self))
                       = before @ remaining_init_steps w self))"
proof (intro conjI impI)
  let ?w = "w\<lparr>params_upload_fault := fault\<rparr>"
  let ?v = "w\<lparr>params_upload_fault := None\<rparr>"
  show "fst (init_callback ?w self) = fst (init_callback ?v self)"
    by (simp add: init_callback_cases Let_def split: option.splits)
  show "snd (snd (init_callback ?w self)) = snd (snd (init_callback ?v self))"
    by (simp add: init_callback_cases Let_def split: option.splits)
  show "filter (\<lambda>e. \<not> is_model_params e) (fst (snd (init_callback ?w self)))
          = filter (\<lambda>e. \<not> is_model_params e) (fst (snd (init_callback ?v self)))"
    by (simp add: init_callback_cases Let_def try_log_model_params_only split: option.splits)
  show "list_all (\<lambda>e. \<not> is_model_params e) (fst (snd (init_callback ?w self)))"
    if "fault \<noteq> None"
    using that by (intro init_callback_not_model_params try_log_model_params_fault) simp
  have nf: "no_other_init_fault ?w self" if "no_other_init_fault w self"
    using that by (simp add: no_other_init_fault_def)
  show "fst (init_callback ?w self) = Returned ()" if "no_other_init_fault w self"
    by (rule init_callback_no_fault(1) [OF nf [OF that]])
  show "\<exists>before. fst (snd (init_callback ?w self)) = before @ remaining_init_steps w self"
    if "no_other_init_fault w self"
    using init_callback_no_fault(2) [OF nf [OF that]] by simp
qed

theorem init_survives_params_upload_failure_witness:
  "no_other_init_fault (quiet_world\<lparr>log_dir_exists := False\<rparr>) tuned_callback
   \<and> init_callback (quiet_world\<lparr>log_dir_exists := False,
                                params_upload_fault := Some (ExternalError ''offline'')\<rparr>)
       tuned_callback
     = (Returned (),
        [CreateExperiment ''experiment'',
         AppendTags [''PPO'', ''Hopper-v2'', ''seed: 7''],
         LogText ''Path to local files'' ''logs'',
         LogText ''Comment'' ''first run'',
         Mkdir ''logs''],
        tuned_callback\<lparr>neptune_logger := Some ''account/project''\<rparr>)
   \<and> remaining_init_steps (quiet_world\<lparr>log_dir_exists := False\<rparr>) tuned_callback
     = [LogText ''Path to local files'' ''logs'', LogText ''Comment'' ''first run'', Mkdir ''logs'']"
proof -
  let ?w = "quiet_world\<lparr>log_dir_exists := False\<rparr>"
  let ?fault = "Some (ExternalError ''offline'')"
  have nf: "no_other_init_fault ?w tuned_callback"
    by (simp add: no_other_init_fault_def quiet_world_def)
  have rest: "remaining_init_steps ?w tuned_callback
     = [LogText ''Path to local files'' ''logs'', LogText ''Comment'' ''first run'', Mkdir ''logs'']"
    by (simp add: remaining_init_steps_def tuned_callback_def init_def)
  have run: "init_callback (?w\<lparr>params_upload_fault := ?fault\<rparr>) tuned_callback
   = (Returned (),
      [CreateExperiment ''experiment'',
       AppendTags [''PPO'', ''Hopper-v2'', ''seed: 7''],
       LogText ''Path to local files'' ''logs'',
       LogText ''Comment'' ''first run'',
       Mkdir ''logs''],
      tuned_callback\<lparr>neptune_logger := Some ''account/project''\<rparr>)"
    by (simp add: init_callback_cases finish_init_def quiet_world_def tuned_callback_def init_def
          Let_def try_log_model_params_def model_params_text_def py_reduce_def str_int_7)
  from init_survives_params_upload_failure [where w = ?w and fault = ?fault and self = tuned_callback]
    nf run rest
  show ?thesis by simp
qed




end
